theory Spec2Isabelle
  imports Complex_Main
begin

section \<open>JavaScript numbers\<close>

text \<open>
  The engine computes prices and slippage on JavaScript numbers, which are doubles. A
  number of the model is \<open>NaN\<close>, an infinity, or a finite double, given by the real
  it denotes. An arithmetic operation on finite numbers computes the exact real result
  and rounds it to a double: the rounding \<open>fl\<close> (to the nearest double, or to an
  infinity on overflow) is a parameter of every operation that rounds, so that what is
  proved holds whatever the rounding does. Comparisons and \<open>Math.abs\<close> are exact on
  doubles. The sign of zero is outside the model (its zero is \<open>+0\<close>).
\<close>

datatype jsnum = Num real | PInf | NInf | NaN

text \<open>\<open>a - b\<close>\<close>
fun js_sub :: "(real \<Rightarrow> jsnum) \<Rightarrow> jsnum \<Rightarrow> jsnum \<Rightarrow> jsnum" where
  "js_sub fl NaN _ = NaN"
| "js_sub fl _ NaN = NaN"
| "js_sub fl (Num a) (Num b) = fl (a - b)"
| "js_sub fl (Num a) PInf = NInf"
| "js_sub fl (Num a) NInf = PInf"
| "js_sub fl PInf PInf = NaN"
| "js_sub fl PInf _ = PInf"
| "js_sub fl NInf NInf = NaN"
| "js_sub fl NInf _ = NInf"

text \<open>\<open>Math.abs(a)\<close>\<close>
fun js_abs :: "jsnum \<Rightarrow> jsnum" where
  "js_abs (Num a) = Num \<bar>a\<bar>"
| "js_abs PInf = PInf"
| "js_abs NInf = PInf"
| "js_abs NaN = NaN"

text \<open>\<open>a / b\<close>: a finite nonzero value over zero is an infinity, zero over zero is \<open>NaN\<close>.\<close>
fun js_div :: "(real \<Rightarrow> jsnum) \<Rightarrow> jsnum \<Rightarrow> jsnum \<Rightarrow> jsnum" where
  "js_div fl NaN _ = NaN"
| "js_div fl _ NaN = NaN"
| "js_div fl (Num a) (Num b) =
     (if b \<noteq> 0 then fl (a / b)
      else if a = 0 then NaN
      else if 0 < a then PInf else NInf)"
| "js_div fl (Num a) _ = Num 0"
| "js_div fl PInf (Num b) = (if 0 \<le> b then PInf else NInf)"
| "js_div fl NInf (Num b) = (if 0 \<le> b then NInf else PInf)"
| "js_div fl _ _ = NaN"

text \<open>\<open>a * b\<close>\<close>
fun js_mul :: "(real \<Rightarrow> jsnum) \<Rightarrow> jsnum \<Rightarrow> jsnum \<Rightarrow> jsnum" where
  "js_mul fl NaN _ = NaN"
| "js_mul fl _ NaN = NaN"
| "js_mul fl (Num a) (Num b) = fl (a * b)"
| "js_mul fl (Num a) PInf = (if a = 0 then NaN else if 0 < a then PInf else NInf)"
| "js_mul fl (Num a) NInf = (if a = 0 then NaN else if 0 < a then NInf else PInf)"
| "js_mul fl PInf (Num b) = (if b = 0 then NaN else if 0 < b then PInf else NInf)"
| "js_mul fl NInf (Num b) = (if b = 0 then NaN else if 0 < b then NInf else PInf)"
| "js_mul fl PInf PInf = PInf"
| "js_mul fl PInf NInf = NInf"
| "js_mul fl NInf PInf = NInf"
| "js_mul fl NInf NInf = PInf"

text \<open>\<open>a > b\<close>: every comparison with \<open>NaN\<close> is false.\<close>
fun js_gt :: "jsnum \<Rightarrow> jsnum \<Rightarrow> bool" where
  "js_gt NaN _ = False"
| "js_gt _ NaN = False"
| "js_gt (Num a) (Num b) = (b < a)"
| "js_gt (Num a) PInf = False"
| "js_gt (Num a) NInf = True"
| "js_gt PInf PInf = False"
| "js_gt PInf _ = True"
| "js_gt NInf _ = False"

text \<open>\<open>a <= b\<close>\<close>
fun js_le :: "jsnum \<Rightarrow> jsnum \<Rightarrow> bool" where
  "js_le NaN _ = False"
| "js_le _ NaN = False"
| "js_le (Num a) (Num b) = (a \<le> b)"
| "js_le (Num a) PInf = True"
| "js_le (Num a) NInf = False"
| "js_le PInf PInf = True"
| "js_le PInf _ = False"
| "js_le NInf _ = True"

text \<open>\<open>a >= b\<close>\<close>
definition js_ge :: "jsnum \<Rightarrow> jsnum \<Rightarrow> bool" where
  "js_ge a b = js_le b a"

text \<open>Truthiness of a number: \<open>0\<close> and \<open>NaN\<close> are falsy.\<close>
fun truthy :: "jsnum \<Rightarrow> bool" where
  "truthy (Num a) = (a \<noteq> 0)"
| "truthy NaN = False"
| "truthy _ = True"

text \<open>An optional number (\<open>number | undefined | null\<close>): the absent value is falsy.\<close>
fun truthy_opt :: "jsnum option \<Rightarrow> bool" where
  "truthy_opt None = False"
| "truthy_opt (Some a) = truthy a"

text \<open>The absent value in arithmetic and in a comparison is \<open>NaN\<close>.\<close>
fun to_number :: "jsnum option \<Rightarrow> jsnum" where
  "to_number None = NaN"
| "to_number (Some a) = a"

text \<open>\<open>a || b\<close> on optional numbers.\<close>
definition js_or :: "jsnum option \<Rightarrow> jsnum option \<Rightarrow> jsnum option" where
  "js_or a b = (if truthy_opt a then a else b)"

text \<open>\<open>a || 0\<close>\<close>
definition js_or_zero :: "jsnum option \<Rightarrow> jsnum" where
  "js_or_zero a = (if truthy_opt a then to_number a else Num 0)"

section \<open>Data model (types/trading.ts)\<close>

datatype OrderType = MARKET | LIMIT | STOP_LOSS | TAKE_PROFIT | TRAILING_STOP

datatype OrderStatus = PENDING | FILLED | PARTIALLY_FILLED | CANCELLED | REJECTED | FAILED | EXPIRED

datatype OrderSide = BUY | SELL

datatype TradeStatus = TRADE_PENDING | TRADE_COMPLETED | TRADE_FAILED | TRADE_CANCELLED

text \<open>
  An order, with the fields the execution service reads or writes. Dates are
  milliseconds as naturals.
\<close>

record Order =
  order_id :: string
  userId :: string
  userWallet :: string
  order_type :: OrderType
  side :: OrderSide
  status :: OrderStatus
  inputMint :: string
  outputMint :: string
  amount :: jsnum
  limitPrice :: "jsnum option"
  stopPrice :: "jsnum option"
  takeProfitPrice :: "jsnum option"
  marketPrice :: "jsnum option"
  slippageTolerance :: jsnum
  createdAt :: nat
  updatedAt :: nat
  failureReason :: "string option"

record Trade =
  trade_id :: string
  trade_orderId :: string
  trade_userId :: string
  trade_inputMint :: string
  trade_outputMint :: string
  trade_inputAmount :: jsnum
  trade_outputAmount :: jsnum
  trade_price :: jsnum
  trade_side :: OrderSide
  trade_signature :: "string option"
  trade_status :: TradeStatus
  trade_executedAt :: nat
  trade_fees :: jsnum
  trade_slippage :: jsnum

text \<open>A quote of the venue: the engine reads the two amount strings.\<close>

record Quote =
  inAmount :: string
  outAmount :: string

record SwapResult =
  swap_success :: bool
  swap_signature :: "string option"
  swap_error :: "string option"
  swap_fees :: "jsnum option"
  swap_slippage :: "jsnum option"

text \<open>The shape \<open>{ isValid: boolean; reason?: string }\<close> of both gates.\<close>

record Check =
  isValid :: bool
  reason :: "string option"

datatype js_error = Error (message: string)

section \<open>Store, collaborators and effects\<close>

text \<open>
  A call the service makes to the outside: the risk manager, the venue (quote, swap,
  price), the portfolio manager, and one round trip of \<open>pool.query\<close>. The state keeps
  them in the order made.
\<close>

datatype call =
    ValidateOrder string
  | GetQuote string string jsnum
  | ExecuteSwap Quote string jsnum
  | GetTokenPrice string string
  | UpdatePortfolio string
  | PoolQuery

text \<open>
  The state the service works on: the rows of the tables \<open>orders\<close> and \<open>trades\<close>,
  whatever the portfolio manager keeps (a type parameter), and the calls made so far.
\<close>

record 'p state =
  orders :: "Order list"
  trades :: "Trade list"
  portfolio :: 'p
  calls :: "call list"

text \<open>
  The collaborators are not part of the service and are parameters of the model. Each
  one sees the state it is called in (so that its answer may change from call to call)
  and either raises or answers; the portfolio manager returns the portfolio it leaves
  behind, also when it raises. \<open>poolQuery\<close> says whether \<open>pool.query\<close> raises in a
  state. \<open>now\<close> is the clock (\<open>NOW()\<close>, \<open>new Date()\<close>), \<open>generateTradeId\<close> the
  identifier drawn from clock and random source, \<open>parseFloat\<close> and \<open>toFixed\<close> are
  JavaScript's, and \<open>round_double\<close> is the rounding of its arithmetic. The logger is
  taken not to raise and is left out.
\<close>

record 'p env =
  validateOrder :: "'p state \<Rightarrow> Order \<Rightarrow> js_error + Check"
  getQuote :: "'p state \<Rightarrow> string \<Rightarrow> string \<Rightarrow> jsnum \<Rightarrow> js_error + Quote option"
  executeSwap :: "'p state \<Rightarrow> Quote \<Rightarrow> string \<Rightarrow> jsnum \<Rightarrow> js_error + SwapResult"
  getTokenPrice :: "'p state \<Rightarrow> string \<Rightarrow> string \<Rightarrow> js_error + jsnum option"
  updatePortfolioAfterTrade :: "'p state \<Rightarrow> Trade \<Rightarrow> 'p \<times> js_error option"
  poolQuery :: "'p state \<Rightarrow> js_error option"
  now :: "'p state \<Rightarrow> nat"
  generateTradeId :: "'p state \<Rightarrow> string"
  parseFloat :: "string \<Rightarrow> jsnum"
  toFixed :: "jsnum \<Rightarrow> nat \<Rightarrow> string"
  round_double :: "real \<Rightarrow> jsnum"

text \<open>
  An \<open>async\<close> method: from a state to the state it leaves and either the exception it
  raises (\<open>Inl\<close>) or its value (\<open>Inr\<close>). What was written before a raise stays written.
\<close>

type_synonym ('p, 'a) io = "'p state \<Rightarrow> 'p state \<times> (js_error + 'a)"

definition return_io :: "'a \<Rightarrow> ('p, 'a) io" where
  "return_io a = (\<lambda>s. (s, Inr a))"

text \<open>\<open>const x = await m; f(x)\<close>: a raise of \<open>m\<close> skips \<open>f\<close>.\<close>
definition bind_io :: "('p, 'a) io \<Rightarrow> ('a \<Rightarrow> ('p, 'b) io) \<Rightarrow> ('p, 'b) io" where
  "bind_io m f = (\<lambda>s. case m s of (s', Inl e) \<Rightarrow> (s', Inl e) | (s', Inr a) \<Rightarrow> f a s')"

text \<open>\<open>try { m } catch (error) { h(error) }\<close>\<close>
definition try_catch :: "('p, 'a) io \<Rightarrow> (js_error \<Rightarrow> ('p, 'a) io) \<Rightarrow> ('p, 'a) io" where
  "try_catch m h = (\<lambda>s. case m s of (s', Inl e) \<Rightarrow> h e s' | (s', Inr a) \<Rightarrow> (s', Inr a))"

definition called :: "call \<Rightarrow> 'p state \<Rightarrow> 'p state" where
  "called c s = s\<lparr>calls := calls s @ [c]\<rparr>"

text \<open>The calls to the collaborators, each recorded in the state.\<close>

definition call_validateOrder :: "'p env \<Rightarrow> Order \<Rightarrow> ('p, Check) io" where
  "call_validateOrder env order =
     (\<lambda>s. (called (ValidateOrder (order_id order)) s, validateOrder env s order))"

definition call_getQuote :: "'p env \<Rightarrow> string \<Rightarrow> string \<Rightarrow> jsnum \<Rightarrow> ('p, Quote option) io" where
  "call_getQuote env i out a =
     (\<lambda>s. (called (GetQuote i out a) s, getQuote env s i out a))"

definition call_executeSwap :: "'p env \<Rightarrow> Quote \<Rightarrow> string \<Rightarrow> jsnum \<Rightarrow> ('p, SwapResult) io" where
  "call_executeSwap env quote wallet tol =
     (\<lambda>s. (called (ExecuteSwap quote wallet tol) s, executeSwap env s quote wallet tol))"

definition call_getTokenPrice :: "'p env \<Rightarrow> string \<Rightarrow> string \<Rightarrow> ('p, jsnum option) io" where
  "call_getTokenPrice env i out =
     (\<lambda>s. (called (GetTokenPrice i out) s, getTokenPrice env s i out))"

definition call_updatePortfolioAfterTrade :: "'p env \<Rightarrow> Trade \<Rightarrow> ('p, unit) io" where
  "call_updatePortfolioAfterTrade env trade =
     (\<lambda>s. case updatePortfolioAfterTrade env s trade of
        (p, Some e) \<Rightarrow> (called (UpdatePortfolio (trade_id trade)) (s\<lparr>portfolio := p\<rparr>), Inl e)
      | (p, None) \<Rightarrow> (called (UpdatePortfolio (trade_id trade)) (s\<lparr>portfolio := p\<rparr>), Inr ()))"

text \<open>
  \<open>pool.query\<close>: one round trip. When it raises nothing is written; otherwise the
  statement \<open>write\<close> is applied to the state the query was issued in and \<open>answer\<close>
  is read off that same state.
\<close>
definition pool_query ::
  "'p env \<Rightarrow> ('p state \<Rightarrow> 'p state \<Rightarrow> 'p state) \<Rightarrow> ('p state \<Rightarrow> 'a) \<Rightarrow> ('p, 'a) io" where
  "pool_query env write answer =
     (\<lambda>s. case poolQuery env s of
        Some e \<Rightarrow> (called PoolQuery s, Inl e)
      | None \<Rightarrow> (write s (called PoolQuery s), Inr (answer s)))"

section \<open>OrderExecutionService\<close>

text \<open>
  The rows of \<open>orders\<close> after
  \<open>UPDATE orders SET status = $1, failure_reason = $2, updated_at = NOW() WHERE id = $3\<close>
  at time \<open>t\<close>.
\<close>
definition sql_update_status ::
  "string \<Rightarrow> OrderStatus \<Rightarrow> string option \<Rightarrow> nat \<Rightarrow> Order list \<Rightarrow> Order list" where
  "sql_update_status orderId st rsn t rows =
     map (\<lambda>r. if order_id r = orderId
              then r\<lparr>status := st, failureReason := rsn, updatedAt := t\<rparr>
              else r) rows"

definition updateOrderStatus ::
  "'p env \<Rightarrow> string \<Rightarrow> OrderStatus \<Rightarrow> string option \<Rightarrow> ('p, unit) io" where
  "updateOrderStatus env orderId st rsn =
     pool_query env
       (\<lambda>s0 s. s\<lparr>orders := sql_update_status orderId st rsn (now env s0) (orders s0)\<rparr>)
       (\<lambda>_. ())"

definition checkSlippage :: "'p env \<Rightarrow> Order \<Rightarrow> Quote \<Rightarrow> Check" where
  "checkSlippage env order quote =
     (let expectedPrice = to_number (js_or (limitPrice order) (marketPrice order));
          quotedPrice = js_div (round_double env)
            (parseFloat env (outAmount quote)) (parseFloat env (inAmount quote));
          slippage = js_div (round_double env)
            (js_abs (js_sub (round_double env) quotedPrice expectedPrice)) expectedPrice
      in if js_gt slippage (slippageTolerance order)
         then \<lparr>isValid = False,
               reason = Some (''Slippage ''
                  @ toFixed env (js_mul (round_double env) slippage (Num 100)) 2
                  @ ''% exceeds tolerance ''
                  @ toFixed env (js_mul (round_double env) (slippageTolerance order) (Num 100)) 2
                  @ ''%'')\<rparr>
         else \<lparr>isValid = True, reason = None\<rparr>)"

definition shouldExecuteLimitOrder :: "Order \<Rightarrow> jsnum \<Rightarrow> bool" where
  "shouldExecuteLimitOrder order currentPrice =
     (if side order = BUY
      then js_le currentPrice (to_number (limitPrice order))
      else js_ge currentPrice (to_number (limitPrice order)))"

definition shouldExecuteStopLoss :: "Order \<Rightarrow> jsnum \<Rightarrow> bool" where
  "shouldExecuteStopLoss order currentPrice =
     (if side order = SELL
      then js_le currentPrice (to_number (stopPrice order))
      else False)"

text \<open>Builds the trade and inserts it into \<open>trades\<close>.\<close>
definition createTrade :: "'p env \<Rightarrow> Order \<Rightarrow> SwapResult \<Rightarrow> Quote \<Rightarrow> ('p, Trade) io" where
  "createTrade env order swapResult quote =
     (\<lambda>s. let trade = \<lparr>
               trade_id = generateTradeId env s,
               trade_orderId = order_id order,
               trade_userId = userId order,
               trade_inputMint = inputMint order,
               trade_outputMint = outputMint order,
               trade_inputAmount = parseFloat env (inAmount quote),
               trade_outputAmount = parseFloat env (outAmount quote),
               trade_price = js_div (round_double env)
                 (parseFloat env (outAmount quote)) (parseFloat env (inAmount quote)),
               trade_side = side order,
               trade_signature = swap_signature swapResult,
               trade_status = TRADE_COMPLETED,
               trade_executedAt = now env s,
               trade_fees = js_or_zero (swap_fees swapResult),
               trade_slippage = js_or_zero (swap_slippage swapResult)\<rparr>
           in pool_query env (\<lambda>s0 s1. s1\<lparr>trades := trades s0 @ [trade]\<rparr>) (\<lambda>_. trade) s)"

text \<open>The body of the \<open>try\<close> block of \<open>executeMarketOrder\<close>, steps 1 to 7.\<close>
definition executeMarketOrder_try :: "'p env \<Rightarrow> Order \<Rightarrow> ('p, Trade option) io" where
  "executeMarketOrder_try env order =
     bind_io (call_validateOrder env order) (\<lambda>riskCheck.
       if \<not> isValid riskCheck then
         bind_io (updateOrderStatus env (order_id order) REJECTED (reason riskCheck))
           (\<lambda>_. return_io None)
       else
     bind_io (call_getQuote env (inputMint order) (outputMint order) (amount order)) (\<lambda>q.
       case q of
         None \<Rightarrow>
           bind_io (updateOrderStatus env (order_id order) FAILED (Some ''Unable to get quote''))
             (\<lambda>_. return_io None)
       | Some quote \<Rightarrow>
       if \<not> isValid (checkSlippage env order quote) then
         bind_io (updateOrderStatus env (order_id order) REJECTED
                    (reason (checkSlippage env order quote)))
           (\<lambda>_. return_io None)
       else
     bind_io (call_executeSwap env quote (userWallet order) (slippageTolerance order)) (\<lambda>swapResult.
       if \<not> swap_success swapResult then
         bind_io (updateOrderStatus env (order_id order) FAILED (swap_error swapResult))
           (\<lambda>_. return_io None)
       else
     bind_io (createTrade env order swapResult quote) (\<lambda>trade.
     bind_io (call_updatePortfolioAfterTrade env trade) (\<lambda>_.
     bind_io (updateOrderStatus env (order_id order) FILLED None) (\<lambda>_.
     return_io (Some trade)))))))"

text \<open>The \<open>catch\<close> block: the order is written FAILED with the exception's message.\<close>
definition executeMarketOrder :: "'p env \<Rightarrow> Order \<Rightarrow> ('p, Trade option) io" where
  "executeMarketOrder env order =
     try_catch (executeMarketOrder_try env order) (\<lambda>error.
       bind_io (updateOrderStatus env (order_id order) FAILED (Some (message error)))
         (\<lambda>_. return_io None))"

definition executeLimitOrder :: "'p env \<Rightarrow> Order \<Rightarrow> ('p, Trade option) io" where
  "executeLimitOrder env order =
     try_catch
       (bind_io (call_getTokenPrice env (inputMint order) (outputMint order)) (\<lambda>currentPrice.
          if \<not> truthy_opt currentPrice then return_io None
          else if \<not> shouldExecuteLimitOrder order (to_number currentPrice) then return_io None
          else executeMarketOrder env order))
       (\<lambda>error. return_io None)"

definition executeStopLossOrder :: "'p env \<Rightarrow> Order \<Rightarrow> ('p, Trade option) io" where
  "executeStopLossOrder env order =
     try_catch
       (bind_io (call_getTokenPrice env (inputMint order) (outputMint order)) (\<lambda>currentPrice.
          if \<not> truthy_opt currentPrice then return_io None
          else if \<not> shouldExecuteStopLoss order (to_number currentPrice) then return_io None
          else executeMarketOrder env order))
       (\<lambda>error. return_io None)"

text \<open>No \<open>try\<close> block here: what the price feed or the market execution raises goes on.\<close>
definition executeTakeProfitOrder :: "'p env \<Rightarrow> Order \<Rightarrow> ('p, Trade option) io" where
  "executeTakeProfitOrder env order =
     bind_io (call_getTokenPrice env (inputMint order) (outputMint order)) (\<lambda>currentPrice.
       if \<not> truthy_opt currentPrice then return_io None
       else if side order = SELL \<and> js_ge (to_number currentPrice) (to_number (takeProfitPrice order))
       then executeMarketOrder env order
       else return_io None)"

text \<open>
  \<open>SELECT * FROM orders WHERE status = $1 ORDER BY created_at ASC\<close>; rows created at
  the same instant keep the order of the table.
\<close>
definition getPendingOrders :: "'p env \<Rightarrow> ('p, Order list) io" where
  "getPendingOrders env =
     pool_query env (\<lambda>s0 s. s)
       (\<lambda>s0. sort_key createdAt (filter (\<lambda>r. status r = PENDING) (orders s0)))"

text \<open>The \<open>switch\<close> on the order's type.\<close>
definition dispatch :: "'p env \<Rightarrow> Order \<Rightarrow> ('p, unit) io" where
  "dispatch env order =
     (case order_type order of
        LIMIT \<Rightarrow> bind_io (executeLimitOrder env order) (\<lambda>_. return_io ())
      | STOP_LOSS \<Rightarrow> bind_io (executeStopLossOrder env order) (\<lambda>_. return_io ())
      | TAKE_PROFIT \<Rightarrow> bind_io (executeTakeProfitOrder env order) (\<lambda>_. return_io ())
      | _ \<Rightarrow> return_io ())"

text \<open>The \<open>for\<close> loop over the fetched orders.\<close>
fun for_orders :: "'p env \<Rightarrow> Order list \<Rightarrow> ('p, unit) io" where
  "for_orders env [] = return_io ()"
| "for_orders env (order # rest) = bind_io (dispatch env order) (\<lambda>_. for_orders env rest)"

definition processPendingOrders :: "'p env \<Rightarrow> ('p, unit) io" where
  "processPendingOrders env =
     try_catch
       (bind_io (getPendingOrders env) (\<lambda>pendingOrders. for_orders env pendingOrders))
       (\<lambda>error. return_io ())"

text \<open>
  The rows that
  \<open>UPDATE orders SET status = $1, updated_at = NOW()
   WHERE id = $2 AND user_id = $3 AND status = $4\<close>
  matches, with \<open>$4\<close> the status PENDING.
\<close>
definition cancel_matches :: "string \<Rightarrow> string \<Rightarrow> Order \<Rightarrow> bool" where
  "cancel_matches orderId uid r =
     (order_id r = orderId \<and> userId r = uid \<and> status r = PENDING)"

text \<open>The rows of \<open>orders\<close> after that statement at time \<open>t\<close>, \<open>$1\<close> the status CANCELLED.\<close>
definition sql_cancel :: "string \<Rightarrow> string \<Rightarrow> nat \<Rightarrow> Order list \<Rightarrow> Order list" where
  "sql_cancel orderId uid t rows =
     map (\<lambda>r. if cancel_matches orderId uid r
              then r\<lparr>status := CANCELLED, updatedAt := t\<rparr>
              else r) rows"

text \<open>
  One query, answered by \<open>rowCount > 0\<close>; a raise of the query is answered \<open>false\<close>.
\<close>
definition cancelOrder :: "'p env \<Rightarrow> string \<Rightarrow> string \<Rightarrow> ('p, bool) io" where
  "cancelOrder env orderId uid =
     try_catch
       (pool_query env
          (\<lambda>s0 s. s\<lparr>orders := sql_cancel orderId uid (now env s0) (orders s0)\<rparr>)
          (\<lambda>s0. 0 < length (filter (cancel_matches orderId uid) (orders s0))))
       (\<lambda>error. return_io False)"

text \<open>The calls made from state \<open>s\<close> to state \<open>s'\<close>.\<close>
definition new_calls :: "'p state \<Rightarrow> 'p state \<Rightarrow> call list" where
  "new_calls s s' = drop (length (calls s)) (calls s')"

text \<open>
  The states of a market execution started in \<open>s\<close>: after the risk manager was
  called, after the quote was requested, and after the swap was submitted.
\<close>
definition after_validate :: "Order \<Rightarrow> 'p state \<Rightarrow> 'p state" where
  "after_validate order s = called (ValidateOrder (order_id order)) s"

definition after_quote :: "Order \<Rightarrow> 'p state \<Rightarrow> 'p state" where
  "after_quote order s =
     called (GetQuote (inputMint order) (outputMint order) (amount order)) (after_validate order s)"

definition after_swap :: "Order \<Rightarrow> Quote \<Rightarrow> 'p state \<Rightarrow> 'p state" where
  "after_swap order quote s =
     called (ExecuteSwap quote (userWallet order) (slippageTolerance order)) (after_quote order s)"

text \<open>
  The gate of steps 1 to 4 that stopped the order between \<open>s\<close> and \<open>s'\<close>, with the
  status and the reason it wrote: the risk manager's verdict and reason, the missing
  quote, the slippage check's verdict and reason, or the venue's failure and error.
\<close>
definition gate_stopped :: "'p env \<Rightarrow> Order \<Rightarrow> 'p state \<Rightarrow> 'p state \<Rightarrow> bool" where
  "gate_stopped env order s s' =
     ((\<exists>riskCheck. validateOrder env s order = Inr riskCheck \<and> \<not> isValid riskCheck \<and>
         orders s' = sql_update_status (order_id order) REJECTED (reason riskCheck)
           (now env (after_validate order s)) (orders s)) \<or>
      (\<exists>riskCheck. validateOrder env s order = Inr riskCheck \<and> isValid riskCheck \<and>
         getQuote env (after_validate order s) (inputMint order) (outputMint order) (amount order)
           = Inr None \<and>
         orders s' = sql_update_status (order_id order) FAILED (Some ''Unable to get quote'')
           (now env (after_quote order s)) (orders s)) \<or>
      (\<exists>riskCheck quote. validateOrder env s order = Inr riskCheck \<and> isValid riskCheck \<and>
         getQuote env (after_validate order s) (inputMint order) (outputMint order) (amount order)
           = Inr (Some quote) \<and>
         \<not> isValid (checkSlippage env order quote) \<and>
         orders s' = sql_update_status (order_id order) REJECTED
           (reason (checkSlippage env order quote)) (now env (after_quote order s)) (orders s)) \<or>
      (\<exists>riskCheck quote swapResult.
         validateOrder env s order = Inr riskCheck \<and> isValid riskCheck \<and>
         getQuote env (after_validate order s) (inputMint order) (outputMint order) (amount order)
           = Inr (Some quote) \<and>
         isValid (checkSlippage env order quote) \<and>
         executeSwap env (after_quote order s) quote (userWallet order) (slippageTolerance order)
           = Inr swapResult \<and>
         \<not> swap_success swapResult \<and>
         orders s' = sql_update_status (order_id order) FAILED (swap_error swapResult)
           (now env (after_swap order quote s)) (orders s)))"

text \<open>
  The exception \<open>e\<close> is one a collaborator raised during a market execution started
  in \<open>s\<close>: the risk manager, the venue at the quote or at the swap, the store at one of
  its queries, or the portfolio manager.
\<close>
definition raised_by :: "'p env \<Rightarrow> Order \<Rightarrow> 'p state \<Rightarrow> js_error \<Rightarrow> bool" where
  "raised_by env order s e =
     (validateOrder env s order = Inl e \<or>
      getQuote env (after_validate order s) (inputMint order) (outputMint order) (amount order)
        = Inl e \<or>
      (\<exists>quote. executeSwap env (after_quote order s) quote (userWallet order)
          (slippageTolerance order) = Inl e) \<or>
      (\<exists>st. poolQuery env st = Some e) \<or>
      (\<exists>st trade. snd (updatePortfolioAfterTrade env st trade) = Some e))"

text \<open>
  A trade for the order was inserted between \<open>s\<close> and \<open>s'\<close> and handed to the
  portfolio manager.
\<close>
definition trade_inserted :: "Order \<Rightarrow> 'p state \<Rightarrow> 'p state \<Rightarrow> bool" where
  "trade_inserted order s s' =
     (\<exists>tr. trades s' = trades s @ [tr] \<and> trade_orderId tr = order_id order \<and>
        UpdatePortfolio (trade_id tr) \<in> set (new_calls s s'))"

text \<open>A method only adds to the calls made.\<close>
definition grows :: "('p, 'a) io \<Rightarrow> bool" where
  "grows m = (\<forall>s. \<exists>cs. calls (fst (m s)) = calls s @ cs)"

section \<open>Concrete stores and collaborators\<close>

text \<open>
  Inputs on which the theorems below are run. The portfolio of these stores is the
  list of the identifiers of the trades applied to it.
\<close>

definition order_A :: Order where
  "order_A = \<lparr>order_id = ''o1'', userId = ''u1'', userWallet = ''w1'', order_type = MARKET,
     side = BUY, status = PENDING, inputMint = ''SOL'', outputMint = ''USDC'',
     amount = Num 10, limitPrice = None, stopPrice = None, takeProfitPrice = None,
     marketPrice = Some (Num 100), slippageTolerance = Num (1 / 100),
     createdAt = 1, updatedAt = 1, failureReason = None\<rparr>"

definition order_L :: Order where
  "order_L = \<lparr>order_id = ''o2'', userId = ''u2'', userWallet = ''w2'', order_type = LIMIT,
     side = SELL, status = PENDING, inputMint = ''BONK'', outputMint = ''USDC'',
     amount = Num 10, limitPrice = Some (Num 50), stopPrice = None, takeProfitPrice = None,
     marketPrice = None, slippageTolerance = Num (1 / 100),
     createdAt = 2, updatedAt = 2, failureReason = None\<rparr>"

definition order_S :: Order where
  "order_S = \<lparr>order_id = ''o3'', userId = ''u2'', userWallet = ''w2'', order_type = STOP_LOSS,
     side = SELL, status = PENDING, inputMint = ''BONK'', outputMint = ''USDC'',
     amount = Num 10, limitPrice = None, stopPrice = Some (Num 60), takeProfitPrice = None,
     marketPrice = None, slippageTolerance = Num (1 / 100),
     createdAt = 3, updatedAt = 3, failureReason = None\<rparr>"

definition order_T :: Order where
  "order_T = \<lparr>order_id = ''o4'', userId = ''u3'', userWallet = ''w3'', order_type = TAKE_PROFIT,
     side = SELL, status = PENDING, inputMint = ''JUP'', outputMint = ''USDC'',
     amount = Num 5, limitPrice = None, stopPrice = None, takeProfitPrice = Some (Num 40),
     marketPrice = None, slippageTolerance = Num (1 / 100),
     createdAt = 0, updatedAt = 0, failureReason = None\<rparr>"

text \<open>An order whose recorded market price is zero and which has no limit price.\<close>
definition order_Z :: Order where
  "order_Z = order_A\<lparr>marketPrice := Some (Num 0)\<rparr>"

definition quote_100 :: Quote where
  "quote_100 = \<lparr>inAmount = ''1'', outAmount = ''100''\<rparr>"






definition quote_102 :: Quote where
  "quote_102 = \<lparr>inAmount = ''1'', outAmount = ''102''\<rparr>"

definition parse_amount :: "string \<Rightarrow> jsnum" where
  "parse_amount str =
     (if str = ''1'' then Num 1
      else if str = ''61'' then Num 61
      else if str = ''64'' then Num 64
      else if str = ''65'' then Num 65
      else if str = ''67'' then Num 67
      else if str = ''100'' then Num 100
      else if str = ''102'' then Num 102
      else if str = ''103'' then Num 103
      else NaN)"

definition fixed_digits :: "jsnum \<Rightarrow> nat \<Rightarrow> string" where
  "fixed_digits n d =
     (if n = Num 1 \<and> d = 2 then ''1.00''
      else if n = Num (25 / 16) \<and> d = 2 then ''1.56''
      else if n = Num (75 / 16) \<and> d = 2 then ''4.69''
      else if n = Num 100 \<and> d = 2 then ''100.00''
      else if n = PInf then ''Infinity''
      else ''NaN'')"

text \<open>
  A rounding that rounds nothing. In the runs below that use it, every difference,
  quotient and product of finite numbers is a double already (an integer or a multiple
  of \<open>1 / 64\<close> of small size), so this is what rounding to the nearest double does
  there; the tolerance \<open>1 / 100\<close> of \<open>order_A\<close> stands for the double next to it, is
  only compared with \<open>0\<close>, \<open>1\<close> and \<open>Infinity\<close>, and times 100 is \<open>1\<close> in doubles too.
\<close>
definition exact_round :: "real \<Rightarrow> jsnum" where
  "exact_round x = Num x"






definition store_A :: "string list state" where
  "store_A = \<lparr>orders = [order_A], trades = [], portfolio = [], calls = []\<rparr>"

definition store_LT :: "string list state" where
  "store_LT = \<lparr>orders = [order_L, order_T], trades = [], portfolio = [], calls = []\<rparr>"

text \<open>Every collaborator answers; the venue quotes 100 for 1 and prices every pair at 51.\<close>
definition venue :: "string list env" where
  "venue = \<lparr>
     validateOrder = (\<lambda>s order. Inr \<lparr>isValid = True, reason = None\<rparr>),
     getQuote = (\<lambda>s i out a. Inr (Some quote_100)),
     executeSwap = (\<lambda>s quote wallet tol.
        Inr \<lparr>swap_success = True, swap_signature = Some ''sig1'', swap_error = None,
             swap_fees = None, swap_slippage = None\<rparr>),
     getTokenPrice = (\<lambda>s i out. Inr (Some (Num 51))),
     updatePortfolioAfterTrade = (\<lambda>s trade. (portfolio s @ [trade_id trade], None)),
     poolQuery = (\<lambda>s. None),
     now = (\<lambda>s. length (calls s)),
     generateTradeId = (\<lambda>s. ''trade_1''),
     parseFloat = parse_amount,
     toFixed = fixed_digits,
     round_double = exact_round\<rparr>"

text \<open>The risk manager reports a blacklisted asset.\<close>
definition venue_blacklist :: "string list env" where
  "venue_blacklist =
     venue\<lparr>validateOrder := (\<lambda>s order. Inr \<lparr>isValid = False, reason = Some ''Token is blacklisted''\<rparr>)\<rparr>"

text \<open>The portfolio manager raises.\<close>
definition venue_portfolio_down :: "string list env" where
  "venue_portfolio_down =
     venue\<lparr>updatePortfolioAfterTrade := (\<lambda>s trade. (portfolio s, Some (Error ''portfolio unavailable'')))\<rparr>"

text \<open>The risk manager raises and the store is unreachable.\<close>
definition venue_store_down :: "string list env" where
  "venue_store_down =
     venue\<lparr>validateOrder := (\<lambda>s order. Inl (Error ''risk service unavailable'')),
           poolQuery := (\<lambda>s. Some (Error ''connection terminated''))\<rparr>"

text \<open>The price feed raises for the pair JUP/USDC and answers 51 for every other pair.\<close>
definition venue_feed_down :: "string list env" where
  "venue_feed_down =
     venue\<lparr>getTokenPrice := (\<lambda>s i out.
        if i = ''JUP'' then Inl (Error ''price feed timeout'') else Inr (Some (Num 51)))\<rparr>"

text \<open>The price feed has no price.\<close>
definition venue_no_price :: "string list env" where
  "venue_no_price = venue\<lparr>getTokenPrice := (\<lambda>s i out. Inr None)\<rparr>"



section \<open>Auxiliary facts\<close>

lemmas io_defs = bind_io_def return_io_def try_catch_def called_def pool_query_def
  call_validateOrder_def call_getQuote_def call_executeSwap_def call_getTokenPrice_def
  call_updatePortfolioAfterTrade_def updateOrderStatus_def createTrade_def

subsection \<open>Slippage on finite prices\<close>







subsection \<open>The calls a market execution makes\<close>

lemma grows_return: "grows (return_io a)"
  by (simp add: grows_def return_io_def)

lemma grows_bind:
  assumes "grows m" and "\<And>a. grows (f a)"
  shows "grows (bind_io m f)"
  unfolding grows_def
proof
  fix s
  obtain s1 r where m: "m s = (s1, r)" by (cases "m s")
  from assms(1) m obtain cs where cs: "calls s1 = calls s @ cs"
    unfolding grows_def by (metis fst_conv)
  show "\<exists>cs. calls (fst (bind_io m f s)) = calls s @ cs"
  proof (cases r)
    case (Inl e)
    then show ?thesis using m cs by (simp add: bind_io_def)
  next
    case (Inr a)
    from assms(2) [of a] obtain cs' where "calls (fst (f a s1)) = calls s1 @ cs'"
      unfolding grows_def by blast
    then show ?thesis using m cs Inr by (simp add: bind_io_def)
  qed
qed

lemma grows_pool_query:
  assumes "\<And>s0 s1. calls (write s0 s1) = calls s1"
  shows "grows (pool_query env write answer)"
  using assms by (simp add: grows_def pool_query_def called_def split: option.splits)

lemma grows_updateOrderStatus: "grows (updateOrderStatus env oid st rsn)"
  unfolding updateOrderStatus_def by (rule grows_pool_query) simp

lemma grows_createTrade: "grows (createTrade env order swapResult quote)"
proof -
  have "grows (pool_query env (\<lambda>s0 s1. s1\<lparr>trades := trades s0 @ [t]\<rparr>) (\<lambda>_. t))" for t :: Trade
    by (rule grows_pool_query) simp
  then show ?thesis
    unfolding grows_def createTrade_def Let_def by blast
qed

lemma grows_calls:
  "grows (call_getQuote env i out a)"
  "grows (call_executeSwap env quote wallet tol)"
  "grows (call_updatePortfolioAfterTrade env trade)"
  by (simp_all add: grows_def call_getQuote_def call_executeSwap_def
      call_updatePortfolioAfterTrade_def called_def split: prod.splits option.splits)

lemma grows_after_validateOrder:
  "grows (\<lambda>s. (if \<not> isValid riskCheck then
         bind_io (updateOrderStatus env (order_id order) REJECTED (reason riskCheck))
           (\<lambda>_. return_io None)
       else
     bind_io (call_getQuote env (inputMint order) (outputMint order) (amount order)) (\<lambda>q.
       case q of
         None \<Rightarrow>
           bind_io (updateOrderStatus env (order_id order) FAILED (Some ''Unable to get quote''))
             (\<lambda>_. return_io None)
       | Some quote \<Rightarrow>
       if \<not> isValid (checkSlippage env order quote) then
         bind_io (updateOrderStatus env (order_id order) REJECTED
                    (reason (checkSlippage env order quote)))
           (\<lambda>_. return_io None)
       else
     bind_io (call_executeSwap env quote (userWallet order) (slippageTolerance order)) (\<lambda>swapResult.
       if \<not> swap_success swapResult then
         bind_io (updateOrderStatus env (order_id order) FAILED (swap_error swapResult))
           (\<lambda>_. return_io None)
       else
     bind_io (createTrade env order swapResult quote) (\<lambda>trade.
     bind_io (call_updatePortfolioAfterTrade env trade) (\<lambda>_.
     bind_io (updateOrderStatus env (order_id order) FILLED None) (\<lambda>_.
     return_io (Some trade))))))) s)"
  by (auto intro!: grows_bind grows_return grows_updateOrderStatus grows_createTrade grows_calls
      split: option.splits)

lemma executeMarketOrder_try_calls:
  "\<exists>cs. calls (fst (executeMarketOrder_try env order s))
           = calls s @ ValidateOrder (order_id order) # cs"
proof (cases "validateOrder env s order")
  case (Inl e)
  then show ?thesis
    by (simp add: executeMarketOrder_try_def bind_io_def call_validateOrder_def called_def)
next
  case (Inr riskCheck)
  from grows_after_validateOrder [of riskCheck env order]
  obtain cs where "calls (fst (executeMarketOrder_try env order s))
      = calls (called (ValidateOrder (order_id order)) s) @ cs"
    unfolding grows_def executeMarketOrder_try_def
    by (simp add: bind_io_def call_validateOrder_def Inr) blast
  then show ?thesis by (simp add: called_def)
qed

lemma executeMarketOrder_calls:
  "\<exists>cs. calls (fst (executeMarketOrder env order s))
           = calls s @ ValidateOrder (order_id order) # cs"
proof -
  obtain s1 r where t: "executeMarketOrder_try env order s = (s1, r)"
    by (cases "executeMarketOrder_try env order s")
  from executeMarketOrder_try_calls [of env order s] t
  obtain cs where cs: "calls s1 = calls s @ ValidateOrder (order_id order) # cs" by auto
  show ?thesis
  proof (cases r)
    case (Inl e)
    have "grows (bind_io (updateOrderStatus env (order_id order) FAILED (Some (message e)))
            (\<lambda>_. return_io (None :: Trade option)))"
      by (intro grows_bind grows_return grows_updateOrderStatus)
    then obtain cs' where "calls (fst (executeMarketOrder env order s)) = calls s1 @ cs'"
      unfolding grows_def by (simp add: executeMarketOrder_def try_catch_def t Inl) blast
    then show ?thesis by (simp add: cs)
  next
    case (Inr a)
    then show ?thesis by (simp add: executeMarketOrder_def try_catch_def t cs)
  qed
qed

lemma executeMarketOrder_validates:
  "ValidateOrder (order_id order) \<in> set (new_calls s (fst (executeMarketOrder env order s)))"
proof -
  from executeMarketOrder_calls [of env order s] obtain cs where
    "calls (fst (executeMarketOrder env order s)) = calls s @ ValidateOrder (order_id order) # cs"
    by blast
  then show ?thesis by (simp add: new_calls_def)
qed

lemma new_calls_same: "new_calls s s = []"
  by (simp add: new_calls_def)

subsection \<open>What a market execution leaves behind\<close>

lemma status_write_run:
  "bind_io (updateOrderStatus env oid st rsn) (\<lambda>_. return_io a) s0 =
     (case poolQuery env s0 of
        None \<Rightarrow> (s0\<lparr>orders := sql_update_status oid st rsn (now env s0) (orders s0),
                   calls := calls s0 @ [PoolQuery]\<rparr>, Inr a)
      | Some e \<Rightarrow> (s0\<lparr>calls := calls s0 @ [PoolQuery]\<rparr>, Inl e))"
  by (simp add: bind_io_def updateOrderStatus_def pool_query_def return_io_def called_def
      split: option.splits)

lemma after_fields:
  "orders (after_validate order s) = orders s" "trades (after_validate order s) = trades s"
  "portfolio (after_validate order s) = portfolio s"
  "orders (after_quote order s) = orders s" "trades (after_quote order s) = trades s"
  "portfolio (after_quote order s) = portfolio s"
  "orders (after_swap order quote s) = orders s" "trades (after_swap order quote s) = trades s"
  "portfolio (after_swap order quote s) = portfolio s"
  by (simp_all add: after_validate_def after_quote_def after_swap_def called_def)

lemma after_calls:
  "calls (after_validate order s) = calls s @ [ValidateOrder (order_id order)]"
  "calls (after_quote order s) = calls s @ [ValidateOrder (order_id order),
      GetQuote (inputMint order) (outputMint order) (amount order)]"
  "calls (after_swap order quote s) = calls s @ [ValidateOrder (order_id order),
      GetQuote (inputMint order) (outputMint order) (amount order),
      ExecuteSwap quote (userWallet order) (slippageTolerance order)]"
  by (simp_all add: after_validate_def after_quote_def after_swap_def called_def)

text \<open>Steps 5 to 7, run after a successful swap.\<close>

lemma settle_not_null:
  "bind_io (createTrade env order swapResult quote) (\<lambda>trade.
     bind_io (call_updatePortfolioAfterTrade env trade) (\<lambda>_.
     bind_io (updateOrderStatus env (order_id order) FILLED None) (\<lambda>_.
     return_io (Some trade)))) s0 \<noteq> (s', Inr None)"
  unfolding io_defs
  by (auto split: sum.splits option.splits prod.splits simp: Let_def)

lemma settle_raise:
  assumes "bind_io (createTrade env order swapResult quote) (\<lambda>trade.
     bind_io (call_updatePortfolioAfterTrade env trade) (\<lambda>_.
     bind_io (updateOrderStatus env (order_id order) FILLED None) (\<lambda>_.
     return_io (Some trade)))) s0 = (s', Inl e)"
  shows "orders s' = orders s0 \<and>
         ((\<exists>st. poolQuery env st = Some e) \<or>
          (\<exists>st trade. snd (updatePortfolioAfterTrade env st trade) = Some e)) \<and>
         (trades s' = trades s0 \<or>
          (\<exists>tr. trades s' = trades s0 @ [tr] \<and> trade_orderId tr = order_id order \<and>
             UpdatePortfolio (trade_id tr) \<in> set (drop (length (calls s0)) (calls s'))))"
proof (cases "poolQuery env s0")
  case (Some e0)
  with assms show ?thesis
    unfolding io_defs by (auto simp: Let_def)
next
  case None
  define trade where "trade = \<lparr>
               trade_id = generateTradeId env s0,
               trade_orderId = order_id order,
               trade_userId = userId order,
               trade_inputMint = inputMint order,
               trade_outputMint = outputMint order,
               trade_inputAmount = parseFloat env (inAmount quote),
               trade_outputAmount = parseFloat env (outAmount quote),
               trade_price = js_div (round_double env)
                 (parseFloat env (outAmount quote)) (parseFloat env (inAmount quote)),
               trade_side = side order,
               trade_signature = swap_signature swapResult,
               trade_status = TRADE_COMPLETED,
               trade_executedAt = now env s0,
               trade_fees = js_or_zero (swap_fees swapResult),
               trade_slippage = js_or_zero (swap_slippage swapResult)\<rparr>"
  define s1 where "s1 = s0\<lparr>calls := calls s0 @ [PoolQuery], trades := trades s0 @ [trade]\<rparr>"
  have ct: "createTrade env order swapResult quote s0 = (s1, Inr trade)"
    by (simp add: createTrade_def pool_query_def called_def None Let_def trade_def s1_def)
  have id: "trade_orderId trade = order_id order" by (simp add: trade_def)
  obtain p x where up: "updatePortfolioAfterTrade env s1 trade = (p, x)"
    by (cases "updatePortfolioAfterTrade env s1 trade")
  define s2 where "s2 = s1\<lparr>portfolio := p, calls := calls s1 @ [UpdatePortfolio (trade_id trade)]\<rparr>"
  show ?thesis
  proof (cases x)
    case (Some e1)
    with assms ct up have "s' = s2" "e = e1"
      by (simp_all add: bind_io_def call_updatePortfolioAfterTrade_def called_def s2_def)
    moreover have "snd (updatePortfolioAfterTrade env s1 trade) = Some e1"
      by (simp add: up Some)
    ultimately show ?thesis
      using id by (auto simp: s2_def s1_def)
  next
    case None1: None
    with assms ct up have w: "bind_io (updateOrderStatus env (order_id order) FILLED None)
        (\<lambda>_. return_io (Some trade)) s2 = (s', Inl e)"
      by (simp add: bind_io_def call_updatePortfolioAfterTrade_def called_def s2_def)
    then have "poolQuery env s2 = Some e" "s' = s2\<lparr>calls := calls s2 @ [PoolQuery]\<rparr>"
      by (simp_all add: status_write_run split: option.splits)
    then show ?thesis
      using id by (auto simp: s2_def s1_def)
  qed
qed

text \<open>The \<open>try\<close> block, step by step.\<close>

lemma try_run:
  "executeMarketOrder_try env order s =
     (case validateOrder env s order of
        Inl e \<Rightarrow> (after_validate order s, Inl e)
      | Inr riskCheck \<Rightarrow>
          if \<not> isValid riskCheck then
            bind_io (updateOrderStatus env (order_id order) REJECTED (reason riskCheck))
              (\<lambda>_. return_io None) (after_validate order s)
          else
            (case getQuote env (after_validate order s)
                    (inputMint order) (outputMint order) (amount order) of
               Inl e \<Rightarrow> (after_quote order s, Inl e)
             | Inr None \<Rightarrow>
                 bind_io (updateOrderStatus env (order_id order) FAILED
                            (Some ''Unable to get quote''))
                   (\<lambda>_. return_io None) (after_quote order s)
             | Inr (Some quote) \<Rightarrow>
                 if \<not> isValid (checkSlippage env order quote) then
                   bind_io (updateOrderStatus env (order_id order) REJECTED
                              (reason (checkSlippage env order quote)))
                     (\<lambda>_. return_io None) (after_quote order s)
                 else
                   (case executeSwap env (after_quote order s) quote (userWallet order)
                           (slippageTolerance order) of
                      Inl e \<Rightarrow> (after_swap order quote s, Inl e)
                    | Inr swapResult \<Rightarrow>
                        if \<not> swap_success swapResult then
                          bind_io (updateOrderStatus env (order_id order) FAILED
                                     (swap_error swapResult))
                            (\<lambda>_. return_io None) (after_swap order quote s)
                        else
                          bind_io (createTrade env order swapResult quote) (\<lambda>trade.
                          bind_io (call_updatePortfolioAfterTrade env trade) (\<lambda>_.
                          bind_io (updateOrderStatus env (order_id order) FILLED None) (\<lambda>_.
                          return_io (Some trade)))) (after_swap order quote s))))"
  by (simp add: executeMarketOrder_try_def bind_io_def call_validateOrder_def call_getQuote_def
      call_executeSwap_def after_validate_def after_quote_def after_swap_def
      split: sum.splits option.splits)

lemma try_None:
  assumes "executeMarketOrder_try env order s = (s', Inr None)"
  shows "trades s' = trades s \<and> portfolio s' = portfolio s \<and> gate_stopped env order s s'"
  using assms unfolding try_run gate_stopped_def
  by (auto simp: status_write_run settle_not_null after_fields
      split: sum.splits option.splits if_splits)

lemma trade_insertedI:
  "trades s' = trades s @ [tr] \<Longrightarrow> trade_orderId tr = order_id order \<Longrightarrow>
   UpdatePortfolio (trade_id tr) \<in> set (new_calls s s') \<Longrightarrow> trade_inserted order s s'"
  unfolding trade_inserted_def by blast

lemma try_raise:
  assumes "executeMarketOrder_try env order s = (s', Inl e)"
  shows "orders s' = orders s \<and> raised_by env order s e \<and>
         (trades s' = trades s \<or> trade_inserted order s s')"
proof -
  have settle: "orders s' = orders s \<and> raised_by env order s e \<and>
         (trades s' = trades s \<or> trade_inserted order s s')"
    if "bind_io (createTrade env order swapResult quote) (\<lambda>trade.
       bind_io (call_updatePortfolioAfterTrade env trade) (\<lambda>_.
       bind_io (updateOrderStatus env (order_id order) FILLED None) (\<lambda>_.
       return_io (Some trade)))) (after_swap order quote s) = (s', Inl e)"
    for swapResult quote
  proof -
    have len: "length (calls (after_swap order quote s)) = 3 + length (calls s)"
      by (simp add: after_calls)
    from settle_raise [OF that]
    have o: "orders s' = orders s"
      and r: "(\<exists>st. poolQuery env st = Some e) \<or>
          (\<exists>st trade. snd (updatePortfolioAfterTrade env st trade) = Some e)"
      and t: "trades s' = trades s \<or>
          (\<exists>tr. trades s' = trades s @ [tr] \<and> trade_orderId tr = order_id order \<and>
             UpdatePortfolio (trade_id tr) \<in>
               set (drop (length (calls (after_swap order quote s))) (calls s')))"
      by (simp_all add: after_fields)
    from r have "raised_by env order s e"
      unfolding raised_by_def by blast
    moreover from t have "trades s' = trades s \<or> trade_inserted order s s'"
      unfolding trade_inserted_def new_calls_def len
      by (metis drop_drop in_set_dropD)
    ultimately show ?thesis using o by simp
  qed
  have store: "raised_by env order s x" if "poolQuery env st = Some x" for st x
    using that unfolding raised_by_def by blast
  have risk: "raised_by env order s x" if "validateOrder env s order = Inl x" for x
    using that unfolding raised_by_def by blast
  have quote: "raised_by env order s x"
    if "getQuote env (after_validate order s) (inputMint order) (outputMint order) (amount order)
          = Inl x" for x
    using that unfolding raised_by_def by blast
  have swap: "raised_by env order s x"
    if "executeSwap env (after_quote order s) quote (userWallet order) (slippageTolerance order)
          = Inl x" for x quote
    using that unfolding raised_by_def by blast
  show ?thesis
    using assms unfolding try_run
    by (auto simp: status_write_run after_fields store risk quote swap dest!: settle
        split: sum.splits option.splits if_splits)
qed

lemma trade_inserted_later:
  "trade_inserted order s s1 \<Longrightarrow> trades s' = trades s1 \<Longrightarrow> calls s' = calls s1 @ cs \<Longrightarrow>
   trade_inserted order s s'"
  unfolding trade_inserted_def new_calls_def by auto

lemma catch_run:
  assumes "executeMarketOrder_try env order s = (s1, Inl e)"
  shows "executeMarketOrder env order s =
     (case poolQuery env s1 of
        None \<Rightarrow> (s1\<lparr>orders := sql_update_status (order_id order) FAILED (Some (message e))
                        (now env s1) (orders s1),
                    calls := calls s1 @ [PoolQuery]\<rparr>, Inr None)
      | Some e' \<Rightarrow> (s1\<lparr>calls := calls s1 @ [PoolQuery]\<rparr>, Inl e'))"
  by (simp add: executeMarketOrder_def try_catch_def assms status_write_run)

lemma no_catch_run:
  assumes "executeMarketOrder_try env order s = (s1, Inr a)"
  shows "executeMarketOrder env order s = (s1, Inr a)"
  by (simp add: executeMarketOrder_def try_catch_def assms)

subsection \<open>Executors that swallow exceptions\<close>

lemma swallow_fst:
  "fst (try_catch m (\<lambda>error. return_io a) s) = fst (m s)"
  by (simp add: try_catch_def return_io_def split: prod.splits sum.splits)

lemma swallow_snd:
  "\<exists>a. snd (try_catch m (\<lambda>error. return_io b) s) = Inr a"
  by (simp add: try_catch_def return_io_def split: prod.splits sum.splits)

lemma bind_unit_snd:
  "snd (m s) = Inr a \<Longrightarrow> snd (bind_io m (\<lambda>_. return_io ()) s) = Inr ()"
  by (cases "m s") (auto simp: bind_io_def return_io_def)

lemma executeLimitOrder_run:
  "executeLimitOrder env order s =
     (case getTokenPrice env s (inputMint order) (outputMint order) of
        Inl e \<Rightarrow> (called (GetTokenPrice (inputMint order) (outputMint order)) s, Inr None)
      | Inr currentPrice \<Rightarrow>
          if truthy_opt currentPrice \<and> shouldExecuteLimitOrder order (to_number currentPrice)
          then try_catch (executeMarketOrder env order) (\<lambda>error. return_io None)
                 (called (GetTokenPrice (inputMint order) (outputMint order)) s)
          else (called (GetTokenPrice (inputMint order) (outputMint order)) s, Inr None))"
  by (simp add: executeLimitOrder_def try_catch_def bind_io_def return_io_def
      call_getTokenPrice_def split: sum.splits prod.splits)

lemma executeStopLossOrder_run:
  "executeStopLossOrder env order s =
     (case getTokenPrice env s (inputMint order) (outputMint order) of
        Inl e \<Rightarrow> (called (GetTokenPrice (inputMint order) (outputMint order)) s, Inr None)
      | Inr currentPrice \<Rightarrow>
          if truthy_opt currentPrice \<and> shouldExecuteStopLoss order (to_number currentPrice)
          then try_catch (executeMarketOrder env order) (\<lambda>error. return_io None)
                 (called (GetTokenPrice (inputMint order) (outputMint order)) s)
          else (called (GetTokenPrice (inputMint order) (outputMint order)) s, Inr None))"
  by (simp add: executeStopLossOrder_def try_catch_def bind_io_def return_io_def
      call_getTokenPrice_def split: sum.splits prod.splits)

lemma delegated_validates:
  "ValidateOrder (order_id order) \<in>
     set (new_calls s1 (fst (try_catch (executeMarketOrder env order) (\<lambda>error. return_io None) s1)))"
  by (simp add: swallow_fst executeMarketOrder_validates)

lemma dispatch_isolated:
  assumes "order_type order \<noteq> TAKE_PROFIT"
  shows "snd (dispatch env order s) = Inr ()"
proof (cases "order_type order")
  case LIMIT
  have "\<exists>a. snd (executeLimitOrder env order s) = Inr a"
    unfolding executeLimitOrder_def by (rule swallow_snd)
  then show ?thesis by (auto simp: dispatch_def LIMIT bind_unit_snd)
next
  case STOP_LOSS
  have "\<exists>a. snd (executeStopLossOrder env order s) = Inr a"
    unfolding executeStopLossOrder_def by (rule swallow_snd)
  then show ?thesis by (auto simp: dispatch_def STOP_LOSS bind_unit_snd)
qed (use assms in \<open>simp_all add: dispatch_def return_io_def\<close>)

subsection \<open>The conditional update of a cancellation\<close>

lemma sql_cancel_length: "length (sql_cancel orderId uid t rows) = length rows"
  by (simp add: sql_cancel_def)

lemma sql_cancel_nth:
  "i < length rows \<Longrightarrow>
   sql_cancel orderId uid t rows ! i =
     (if cancel_matches orderId uid (rows ! i)
      then (rows ! i)\<lparr>status := CANCELLED, updatedAt := t\<rparr> else rows ! i)"
  by (simp add: sql_cancel_def)

lemma row_count_positive:
  "0 < length (filter Q rows) \<longleftrightarrow> (\<exists>i<length rows. Q (rows ! i))"
proof -
  have "0 < length (filter Q rows) \<longleftrightarrow> (\<exists>x\<in>set rows. Q x)"
    by (simp add: filter_empty_conv)
  also have "\<dots> \<longleftrightarrow> (\<exists>i<length rows. Q (rows ! i))"
    by (metis in_set_conv_nth)
  finally show ?thesis .
qed

lemma cancelOrder_run:
  "cancelOrder env orderId uid s =
     (case poolQuery env s of
        None \<Rightarrow> (s\<lparr>orders := sql_cancel orderId uid (now env s) (orders s),
                   calls := calls s @ [PoolQuery]\<rparr>,
                 Inr (0 < length (filter (cancel_matches orderId uid) (orders s))))
      | Some e \<Rightarrow> (s\<lparr>calls := calls s @ [PoolQuery]\<rparr>, Inr False))"
  by (simp add: cancelOrder_def try_catch_def pool_query_def return_io_def called_def
      split: option.splits)

section \<open>executeMarketOrder\<close>

text \<open>
  C1 as stated, that a call returning no trade has inserted no Trade record and that
  every exception of steps 1 to 7 ends in FAILED and no trade rather than propagating,
  fails twice. When the portfolio manager raises, the trade of step 5 is already in
  \<open>trades\<close>: the call returns no trade, the order is FAILED, and the trade stays.
  When the store is unreachable, the write of FAILED in the \<open>catch\<close> block raises
  itself, and that exception leaves the call.
\<close>

theorem null_after_insert_counterexample:
  "snd (executeMarketOrder venue_portfolio_down order_A store_A) = Inr None \<and>
   trades store_A = [] \<and>
   map trade_orderId (trades (fst (executeMarketOrder venue_portfolio_down order_A store_A)))
     = [order_id order_A] \<and>
   map status (orders (fst (executeMarketOrder venue_portfolio_down order_A store_A))) = [FAILED] \<and>
   snd (executeMarketOrder venue_store_down order_A store_A) = Inl (Error ''connection terminated'')"
  unfolding executeMarketOrder_def executeMarketOrder_try_def io_defs
  by (simp add: venue_portfolio_down_def venue_store_down_def venue_def store_A_def order_A_def
      sql_update_status_def checkSlippage_def js_or_def quote_100_def parse_amount_def
      exact_round_def Let_def)

text \<open>
  C1, amended. If \<open>executeMarketOrder\<close> returns no trade, then one of two things
  happened. Either a gate of steps 1 to 4 stopped the order: the order's row was
  written REJECTED with the risk manager's reason, FAILED with the reason that no quote
  could be had, REJECTED with the reason of the slippage check, or FAILED with the
  venue's error, according to the gate; no Trade record was inserted and the portfolio
  is untouched. Or a collaborator raised an exception in steps 1 to 7: the order's row
  was written FAILED with the exception's message, and either no Trade record was
  inserted, or one Trade record of the order was inserted and the portfolio manager was
  then called (the exception came from step 6 or 7). When the \<open>try\<close> block itself
  returns no trade, so does the call, with no Trade record inserted. An exception
  raised in steps 1 to 7 is caught: the order is written FAILED with the exception's
  message and no trade is returned when that write succeeds, and the exception of that
  write leaves the call when it does not.
\<close>

theorem executeMarketOrder_null:
  "(executeMarketOrder env order s = (s', Inr None) \<longrightarrow>
      (gate_stopped env order s s' \<and> trades s' = trades s \<and> portfolio s' = portfolio s) \<or>
      (\<exists>e sx. executeMarketOrder_try env order s = (sx, Inl e) \<and> raised_by env order s e \<and>
         orders s' = sql_update_status (order_id order) FAILED (Some (message e))
           (now env sx) (orders s) \<and>
         (trades s' = trades s \<or>
          (\<exists>tr. trades s' = trades s @ [tr] \<and> trade_orderId tr = order_id order \<and>
             UpdatePortfolio (trade_id tr) \<in> set (new_calls s s'))))) \<and>
   (executeMarketOrder_try env order s = (s1, Inr None) \<longrightarrow>
      executeMarketOrder env order s = (s1, Inr None) \<and>
      trades s1 = trades s \<and> portfolio s1 = portfolio s) \<and>
   (executeMarketOrder_try env order s = (s1, Inl e) \<longrightarrow>
      executeMarketOrder env order s =
        (case poolQuery env s1 of
           None \<Rightarrow> (s1\<lparr>orders := sql_update_status (order_id order) FAILED (Some (message e))
                           (now env s1) (orders s1),
                       calls := calls s1 @ [PoolQuery]\<rparr>, Inr None)
         | Some e' \<Rightarrow> (s1\<lparr>calls := calls s1 @ [PoolQuery]\<rparr>, Inl e')))"
proof -
  have a: "(gate_stopped env order s s' \<and> trades s' = trades s \<and> portfolio s' = portfolio s) \<or>
      (\<exists>e sx. executeMarketOrder_try env order s = (sx, Inl e) \<and> raised_by env order s e \<and>
         orders s' = sql_update_status (order_id order) FAILED (Some (message e))
           (now env sx) (orders s) \<and>
         (trades s' = trades s \<or> trade_inserted order s s'))"
    if run: "executeMarketOrder env order s = (s', Inr None)"
  proof -
    obtain s2 r where t: "executeMarketOrder_try env order s = (s2, r)"
      by (cases "executeMarketOrder_try env order s")
    show ?thesis
    proof (cases r)
      case (Inr a)
      with t run have "executeMarketOrder_try env order s = (s', Inr None)"
        by (simp add: no_catch_run)
      from try_None [OF this] show ?thesis by simp
    next
      case (Inl e2)
      note t2 = t [unfolded Inl]
      note c = catch_run [OF t2]
      from try_raise [OF t2]
      have o: "orders s2 = orders s" and rb: "raised_by env order s e2"
        and tr: "trades s2 = trades s \<or> trade_inserted order s s2"
        by simp_all
      from c run have q: "poolQuery env s2 = None"
        by (cases "poolQuery env s2") simp_all
      with c run have s': "s' = s2\<lparr>orders := sql_update_status (order_id order) FAILED
          (Some (message e2)) (now env s2) (orders s2), calls := calls s2 @ [PoolQuery]\<rparr>"
        by simp
      have "trades s' = trades s2" "calls s' = calls s2 @ [PoolQuery]"
        by (simp_all add: s')
      with tr have "trades s' = trades s \<or> trade_inserted order s s'"
        using trade_inserted_later by metis
      moreover have "orders s' = sql_update_status (order_id order) FAILED (Some (message e2))
           (now env s2) (orders s)"
        by (simp add: s' o)
      ultimately show ?thesis using t2 rb by blast
    qed
  qed
  have b: "executeMarketOrder env order s = (s1, Inr None) \<and>
      trades s1 = trades s \<and> portfolio s1 = portfolio s"
    if "executeMarketOrder_try env order s = (s1, Inr None)"
    using try_None [OF that] no_catch_run [OF that] by simp
  from a b catch_run show ?thesis
    unfolding trade_inserted_def by blast
qed

text \<open>
  The theorem where the portfolio manager raises: the \<open>try\<close> block raises, no trade
  is returned, the order is written FAILED with the exception's message, and the one
  trade inserted was handed to the portfolio manager. Where the risk manager rejects
  the order, the \<open>try\<close> block itself returns no trade, the risk gate is the gate that
  stopped the order, and no trade was inserted.
\<close>

theorem executeMarketOrder_null_witness:
  "snd (executeMarketOrder venue_portfolio_down order_A store_A) = Inr None \<and>
   raised_by venue_portfolio_down order_A store_A (Error ''portfolio unavailable'') \<and>
   (\<exists>t. orders (fst (executeMarketOrder venue_portfolio_down order_A store_A)) =
        sql_update_status (order_id order_A) FAILED (Some ''portfolio unavailable'') t
          (orders store_A)) \<and>
   (\<exists>tr. trades (fst (executeMarketOrder venue_portfolio_down order_A store_A)) =
           trades store_A @ [tr] \<and>
         trade_orderId tr = order_id order_A \<and>
         UpdatePortfolio (trade_id tr) \<in>
           set (new_calls store_A (fst (executeMarketOrder venue_portfolio_down order_A store_A)))) \<and>
   snd (executeMarketOrder_try venue_portfolio_down order_A store_A)
     = Inl (Error ''portfolio unavailable'') \<and>
   snd (executeMarketOrder_try venue_blacklist order_A store_A) = Inr None \<and>
   executeMarketOrder venue_blacklist order_A store_A =
     executeMarketOrder_try venue_blacklist order_A store_A \<and>
   gate_stopped venue_blacklist order_A store_A
     (fst (executeMarketOrder venue_blacklist order_A store_A)) \<and>
   orders (fst (executeMarketOrder venue_blacklist order_A store_A)) =
     sql_update_status ''o1'' REJECTED (Some ''Token is blacklisted'') 1 [order_A] \<and>
   trades (fst (executeMarketOrder venue_blacklist order_A store_A)) = trades store_A"
proof -
  have ev: "snd (executeMarketOrder venue_portfolio_down order_A store_A) = Inr None"
    "trades (fst (executeMarketOrder venue_portfolio_down order_A store_A)) \<noteq> trades store_A"
    unfolding executeMarketOrder_def executeMarketOrder_try_def io_defs
    by (simp_all add: venue_portfolio_down_def venue_def store_A_def order_A_def
        sql_update_status_def checkSlippage_def js_or_def quote_100_def parse_amount_def
        exact_round_def Let_def)
  then have run: "executeMarketOrder venue_portfolio_down order_A store_A =
      (fst (executeMarketOrder venue_portfolio_down order_A store_A), Inr None)"
    by (simp add: prod_eq_iff)
  have tr: "snd (executeMarketOrder_try venue_portfolio_down order_A store_A)
      = Inl (Error ''portfolio unavailable'')"
    unfolding executeMarketOrder_try_def io_defs
    by (simp add: venue_portfolio_down_def venue_def store_A_def order_A_def
        sql_update_status_def checkSlippage_def js_or_def quote_100_def parse_amount_def
        exact_round_def Let_def)
  have no_gate: "\<not> gate_stopped venue_portfolio_down order_A store_A s'" for s'
    by (simp add: gate_stopped_def venue_portfolio_down_def venue_def checkSlippage_def js_or_def
        order_A_def quote_100_def parse_amount_def exact_round_def Let_def)
  note thm1 = executeMarketOrder_null [where env = venue_portfolio_down and order = order_A
      and s = store_A and s' = "fst (executeMarketOrder venue_portfolio_down order_A store_A)"]
  from thm1 run no_gate obtain e sx where
    t1: "executeMarketOrder_try venue_portfolio_down order_A store_A = (sx, Inl e)"
    and rb: "raised_by venue_portfolio_down order_A store_A e"
    and o1: "orders (fst (executeMarketOrder venue_portfolio_down order_A store_A)) =
        sql_update_status (order_id order_A) FAILED (Some (message e))
          (now venue_portfolio_down sx) (orders store_A)"
    and d1: "trades (fst (executeMarketOrder venue_portfolio_down order_A store_A)) = trades store_A \<or>
      (\<exists>tr. trades (fst (executeMarketOrder venue_portfolio_down order_A store_A)) =
           trades store_A @ [tr] \<and>
         trade_orderId tr = order_id order_A \<and>
         UpdatePortfolio (trade_id tr) \<in>
           set (new_calls store_A (fst (executeMarketOrder venue_portfolio_down order_A store_A))))"
    by blast
  from t1 tr have e: "e = Error ''portfolio unavailable''" by simp
  have 1: "raised_by venue_portfolio_down order_A store_A (Error ''portfolio unavailable'')"
    using rb e by simp
  have 2: "\<exists>t. orders (fst (executeMarketOrder venue_portfolio_down order_A store_A)) =
        sql_update_status (order_id order_A) FAILED (Some ''portfolio unavailable'') t
          (orders store_A)"
    using o1 e by auto
  have 3: "\<exists>tr. trades (fst (executeMarketOrder venue_portfolio_down order_A store_A)) =
           trades store_A @ [tr] \<and>
         trade_orderId tr = order_id order_A \<and>
         UpdatePortfolio (trade_id tr) \<in>
           set (new_calls store_A (fst (executeMarketOrder venue_portfolio_down order_A store_A)))"
    using d1 ev(2) by blast
  have gate: "snd (executeMarketOrder_try venue_blacklist order_A store_A) = Inr None"
    unfolding executeMarketOrder_try_def io_defs
    by (simp add: venue_blacklist_def venue_def)
  then have null: "executeMarketOrder_try venue_blacklist order_A store_A =
      (fst (executeMarketOrder_try venue_blacklist order_A store_A), Inr None)"
    by (simp add: prod_eq_iff)
  note thm2 = executeMarketOrder_null [where env = venue_blacklist and order = order_A
      and s = store_A and s' = "fst (executeMarketOrder venue_blacklist order_A store_A)"
      and ?s1.0 = "fst (executeMarketOrder_try venue_blacklist order_A store_A)"]
  from thm2 null have 4: "executeMarketOrder venue_blacklist order_A store_A =
       executeMarketOrder_try venue_blacklist order_A store_A"
    and 5: "trades (fst (executeMarketOrder_try venue_blacklist order_A store_A)) = trades store_A"
    by metis+
  from 4 null have run2: "executeMarketOrder venue_blacklist order_A store_A =
      (fst (executeMarketOrder venue_blacklist order_A store_A), Inr None)"
    by simp
  from thm2 run2 null have 6: "gate_stopped venue_blacklist order_A store_A
     (fst (executeMarketOrder venue_blacklist order_A store_A))"
    by (metis Pair_inject sum.distinct(1))
  have 7: "orders (fst (executeMarketOrder venue_blacklist order_A store_A)) =
     sql_update_status ''o1'' REJECTED (Some ''Token is blacklisted'') 1 [order_A]"
    using 6
    by (simp add: gate_stopped_def venue_blacklist_def venue_def store_A_def order_A_def
        after_validate_def called_def)
  from ev(1) 1 2 3 tr gate 4 5 6 7 show ?thesis by simp
qed

text \<open>
  C8. When the risk manager answers that the order is not valid, \<open>executeMarketOrder\<close>
  requests no quote, submits no swap, inserts no trade, leaves the portfolio as it was
  and returns no trade; the only calls are the validation and the status write (a
  second write if the first raises). When the store takes the write, the order is
  REJECTED with the risk manager's reason and nothing else in the state changes.
\<close>

theorem risk_gate_rejects:
  assumes risk: "validateOrder env s order = Inr riskCheck" and bad: "\<not> isValid riskCheck"
  shows "(poolQuery env (called (ValidateOrder (order_id order)) s) = None \<longrightarrow>
            executeMarketOrder env order s =
              (s\<lparr>orders := sql_update_status (order_id order) REJECTED (reason riskCheck)
                    (now env (called (ValidateOrder (order_id order)) s)) (orders s),
                 calls := calls s @ [ValidateOrder (order_id order), PoolQuery]\<rparr>, Inr None)) \<and>
         trades (fst (executeMarketOrder env order s)) = trades s \<and>
         portfolio (fst (executeMarketOrder env order s)) = portfolio s \<and>
         set (new_calls s (fst (executeMarketOrder env order s)))
           \<subseteq> {ValidateOrder (order_id order), PoolQuery} \<and>
         (\<forall>t. snd (executeMarketOrder env order s) \<noteq> Inr (Some t))"
  unfolding executeMarketOrder_def executeMarketOrder_try_def bind_io_def try_catch_def
    call_validateOrder_def
  by (simp add: risk bad updateOrderStatus_def pool_query_def return_io_def called_def
      new_calls_def split: option.splits)

text \<open>The theorem for a blacklisted asset.\<close>

theorem risk_gate_rejects_witness:
  "executeMarketOrder venue_blacklist order_A store_A =
     (store_A\<lparr>orders := [order_A\<lparr>status := REJECTED,
          failureReason := Some ''Token is blacklisted'', updatedAt := 1\<rparr>],
        calls := [ValidateOrder ''o1'', PoolQuery]\<rparr>, Inr None)"
proof -
  have risk: "validateOrder venue_blacklist store_A order_A =
      Inr \<lparr>isValid = False, reason = Some ''Token is blacklisted''\<rparr>"
    by (simp add: venue_blacklist_def venue_def)
  have bad: "\<not> isValid \<lparr>isValid = False, reason = Some ''Token is blacklisted''\<rparr>" by simp
  from risk_gate_rejects [OF risk bad] show ?thesis
    by (simp add: venue_blacklist_def venue_def store_A_def order_A_def called_def
        sql_update_status_def)
qed

section \<open>The slippage gate\<close>






text \<open>
  C9 as stated, that an order without limit price whose recorded market price is
  absent or zero passes every quote, fails for the market price zero: the
  reference price is then \<open>0\<close>, a quote of 102 for 1 has slippage \<open>102 / 0 = Infinity\<close>,
  which exceeds the tolerance, and the quote is rejected.
\<close>

theorem zero_market_price_counterexample:
  "limitPrice order_Z = None \<and> marketPrice order_Z = Some (Num 0) \<and>
   checkSlippage venue order_Z quote_102 =
     \<lparr>isValid = False, reason = Some ''Slippage Infinity% exceeds tolerance 1.00%''\<rparr>"
  by (simp add: order_Z_def order_A_def venue_def quote_102_def parse_amount_def exact_round_def
      fixed_digits_def exact_round_def checkSlippage_def js_or_def Let_def)

text \<open>
  C9, amended. For every order whose limit price is absent or zero and whose recorded
  market price is absent, the reference price is not a number, and the slippage check
  accepts every quote.
\<close>

theorem absent_market_price_accepts:
  assumes "limitPrice order = None \<or> limitPrice order = Some (Num 0)"
    and "marketPrice order = None"
  shows "to_number (js_or (limitPrice order) (marketPrice order)) = NaN \<and>
         checkSlippage env order quote = \<lparr>isValid = True, reason = None\<rparr>"
proof -
  have e: "to_number (js_or (limitPrice order) (marketPrice order)) = NaN"
    using assms by (auto simp: js_or_def)
  have "js_div fl (js_abs (js_sub fl x NaN)) NaN = NaN" for fl x
    by (cases x) simp_all
  then show ?thesis
    by (simp add: checkSlippage_def e Let_def)
qed

text \<open>The take-profit order \<open>order_T\<close> has neither price; a quote of 102 for 1 passes.\<close>

theorem absent_market_price_accepts_witness:
  "limitPrice order_T = None \<and> marketPrice order_T = None \<and>
   checkSlippage venue order_T quote_102 = \<lparr>isValid = True, reason = None\<rparr>"
proof -
  have a: "limitPrice order_T = None \<or> limitPrice order_T = Some (Num 0)"
    by (simp add: order_T_def)
  have b: "marketPrice order_T = None" by (simp add: order_T_def)
  from absent_market_price_accepts [OF a b, of venue quote_102] a b show ?thesis
    by (simp add: order_T_def)
qed

section \<open>Conditional orders\<close>

text \<open>
  C5. \<open>executeLimitOrder\<close> asks the price feed once. If the feed raises or has no
  price (an absent price, \<open>0\<close> and \<open>NaN\<close> count as none), nothing else happens: the
  stored orders are as before and no trade is returned. With a price \<open>p\<close>, the result
  is that of \<open>executeMarketOrder\<close> (an exception it raises swallowed) exactly when the
  side is BUY and \<open>p \<le> limitPrice\<close>, or the side is SELL and \<open>p \<ge> limitPrice\<close>, equality
  included; otherwise nothing else happens. The risk manager is called for the order
  exactly in the triggered case.
\<close>

theorem executeLimitOrder_trigger:
  "((\<exists>e. getTokenPrice env s (inputMint order) (outputMint order) = Inl e) \<or>
    (\<exists>p. getTokenPrice env s (inputMint order) (outputMint order) = Inr p \<and> \<not> truthy_opt p)
    \<longrightarrow> executeLimitOrder env order s =
          (called (GetTokenPrice (inputMint order) (outputMint order)) s, Inr None)) \<and>
   (getTokenPrice env s (inputMint order) (outputMint order) = Inr (Some p) \<and> truthy p
    \<longrightarrow> executeLimitOrder env order s =
          (if (side order = BUY \<and> js_le p (to_number (limitPrice order))) \<or>
              (side order = SELL \<and> js_ge p (to_number (limitPrice order)))
           then try_catch (executeMarketOrder env order) (\<lambda>error. return_io None)
                  (called (GetTokenPrice (inputMint order) (outputMint order)) s)
           else (called (GetTokenPrice (inputMint order) (outputMint order)) s, Inr None)) \<and>
        (ValidateOrder (order_id order) \<in>
           set (new_calls (called (GetTokenPrice (inputMint order) (outputMint order)) s)
                  (fst (executeLimitOrder env order s)))
         \<longleftrightarrow> (side order = BUY \<and> js_le p (to_number (limitPrice order))) \<or>
             (side order = SELL \<and> js_ge p (to_number (limitPrice order)))))"
proof -
  have trig: "shouldExecuteLimitOrder order p \<longleftrightarrow>
      (side order = BUY \<and> js_le p (to_number (limitPrice order))) \<or>
      (side order = SELL \<and> js_ge p (to_number (limitPrice order)))"
    by (cases "side order") (simp_all add: shouldExecuteLimitOrder_def)
  show ?thesis
    by (auto simp: executeLimitOrder_run trig [symmetric] delegated_validates new_calls_same)
qed

text \<open>
  The theorem on a SELL limit at 50: no price and a price of 45 leave the order alone,
  a price of 51 starts the market execution.
\<close>

theorem executeLimitOrder_trigger_witness:
  "executeLimitOrder venue_no_price order_L store_LT =
     (called (GetTokenPrice ''BONK'' ''USDC'') store_LT, Inr None) \<and>
   executeLimitOrder (venue\<lparr>getTokenPrice := (\<lambda>s i out. Inr (Some (Num 45)))\<rparr>) order_L store_LT =
     (called (GetTokenPrice ''BONK'' ''USDC'') store_LT, Inr None) \<and>
   ValidateOrder ''o2'' \<in>
     set (new_calls (called (GetTokenPrice ''BONK'' ''USDC'') store_LT)
            (fst (executeLimitOrder venue order_L store_LT)))"
proof -
  have a: "executeLimitOrder venue_no_price order_L store_LT =
     (called (GetTokenPrice ''BONK'' ''USDC'') store_LT, Inr None)"
    using executeLimitOrder_trigger [where env = venue_no_price and s = store_LT
        and order = order_L]
    by (simp add: venue_no_price_def venue_def order_L_def)
  have b: "executeLimitOrder (venue\<lparr>getTokenPrice := (\<lambda>s i out. Inr (Some (Num 45)))\<rparr>)
       order_L store_LT = (called (GetTokenPrice ''BONK'' ''USDC'') store_LT, Inr None)"
    using executeLimitOrder_trigger [where env = "venue\<lparr>getTokenPrice := (\<lambda>s i out. Inr (Some (Num 45)))\<rparr>"
        and s = store_LT and order = order_L and p = "Num 45"]
    by (simp add: venue_def order_L_def js_ge_def)
  have h: "getTokenPrice venue store_LT (inputMint order_L) (outputMint order_L) = Inr (Some (Num 51))
      \<and> truthy (Num 51)"
    by (simp add: venue_def)
  have t: "side order_L = SELL \<and> js_ge (Num 51) (to_number (limitPrice order_L))"
    by (simp add: order_L_def js_ge_def)
  from executeLimitOrder_trigger [where env = venue and s = store_LT and order = order_L
      and p = "Num 51"] h t
  have "ValidateOrder (order_id order_L) \<in>
     set (new_calls (called (GetTokenPrice (inputMint order_L) (outputMint order_L)) store_LT)
            (fst (executeLimitOrder venue order_L store_LT)))"
    by blast
  then have c: "ValidateOrder ''o2'' \<in>
     set (new_calls (called (GetTokenPrice ''BONK'' ''USDC'') store_LT)
            (fst (executeLimitOrder venue order_L store_LT)))"
    by (simp add: order_L_def)
  from a b c show ?thesis by simp
qed

text \<open>
  C6. With a price \<open>p\<close> from the feed, \<open>executeStopLossOrder\<close> hands the order to
  \<open>executeMarketOrder\<close> exactly when the side is SELL and \<open>p \<le> stopPrice\<close>; without
  a price (the feed raises, or answers none, \<open>0\<close> or \<open>NaN\<close>) it does not. For a BUY
  order it never does, whatever the feed answers: the stored orders are as before and
  no trade is returned.
\<close>

theorem executeStopLossOrder_trigger:
  "((\<exists>e. getTokenPrice env s (inputMint order) (outputMint order) = Inl e) \<or>
    (\<exists>p. getTokenPrice env s (inputMint order) (outputMint order) = Inr p \<and> \<not> truthy_opt p)
    \<longrightarrow> executeStopLossOrder env order s =
          (called (GetTokenPrice (inputMint order) (outputMint order)) s, Inr None)) \<and>
   (getTokenPrice env s (inputMint order) (outputMint order) = Inr (Some p) \<and> truthy p
    \<longrightarrow> executeStopLossOrder env order s =
          (if side order = SELL \<and> js_le p (to_number (stopPrice order))
           then try_catch (executeMarketOrder env order) (\<lambda>error. return_io None)
                  (called (GetTokenPrice (inputMint order) (outputMint order)) s)
           else (called (GetTokenPrice (inputMint order) (outputMint order)) s, Inr None)) \<and>
        (ValidateOrder (order_id order) \<in>
           set (new_calls (called (GetTokenPrice (inputMint order) (outputMint order)) s)
                  (fst (executeStopLossOrder env order s)))
         \<longleftrightarrow> side order = SELL \<and> js_le p (to_number (stopPrice order)))) \<and>
   (side order = BUY
    \<longrightarrow> executeStopLossOrder env order s =
          (called (GetTokenPrice (inputMint order) (outputMint order)) s, Inr None))"
proof -
  have trig: "shouldExecuteStopLoss order p \<longleftrightarrow>
      side order = SELL \<and> js_le p (to_number (stopPrice order))" for p
    by (simp add: shouldExecuteStopLoss_def)
  show ?thesis
    by (auto simp: executeStopLossOrder_run trig delegated_validates new_calls_same
        split: sum.splits)
qed

text \<open>
  The theorem on a SELL stop at 60 with the price at 51 and with no price, and on the
  same order with side BUY.
\<close>

theorem executeStopLossOrder_trigger_witness:
  "ValidateOrder ''o3'' \<in>
     set (new_calls (called (GetTokenPrice ''BONK'' ''USDC'') store_LT)
            (fst (executeStopLossOrder venue order_S store_LT))) \<and>
   executeStopLossOrder venue_no_price order_S store_LT =
     (called (GetTokenPrice ''BONK'' ''USDC'') store_LT, Inr None) \<and>
   executeStopLossOrder venue (order_S\<lparr>side := BUY\<rparr>) store_LT =
     (called (GetTokenPrice ''BONK'' ''USDC'') store_LT, Inr None)"
proof -
  have h: "getTokenPrice venue store_LT (inputMint order_S) (outputMint order_S) = Inr (Some (Num 51))
      \<and> truthy (Num 51)"
    by (simp add: venue_def)
  have t: "side order_S = SELL \<and> js_le (Num 51) (to_number (stopPrice order_S))"
    by (simp add: order_S_def)
  from executeStopLossOrder_trigger [where env = venue and s = store_LT and order = order_S
      and p = "Num 51"] h t
  have "ValidateOrder (order_id order_S) \<in>
     set (new_calls (called (GetTokenPrice (inputMint order_S) (outputMint order_S)) store_LT)
            (fst (executeStopLossOrder venue order_S store_LT)))"
    by blast
  then have a: "ValidateOrder ''o3'' \<in>
     set (new_calls (called (GetTokenPrice ''BONK'' ''USDC'') store_LT)
            (fst (executeStopLossOrder venue order_S store_LT)))"
    by (simp add: order_S_def)
  have n: "getTokenPrice venue_no_price store_LT (inputMint order_S) (outputMint order_S) = Inr None
      \<and> \<not> truthy_opt None"
    by (simp add: venue_no_price_def venue_def)
  from executeStopLossOrder_trigger [where env = venue_no_price and s = store_LT
      and order = order_S] n
  have "executeStopLossOrder venue_no_price order_S store_LT =
     (called (GetTokenPrice (inputMint order_S) (outputMint order_S)) store_LT, Inr None)"
    by blast
  then have c: "executeStopLossOrder venue_no_price order_S store_LT =
     (called (GetTokenPrice ''BONK'' ''USDC'') store_LT, Inr None)"
    by (simp add: order_S_def)
  have b: "executeStopLossOrder venue (order_S\<lparr>side := BUY\<rparr>) store_LT =
     (called (GetTokenPrice ''BONK'' ''USDC'') store_LT, Inr None)"
    using executeStopLossOrder_trigger [where env = venue and s = store_LT
        and order = "order_S\<lparr>side := BUY\<rparr>"]
    by (simp add: order_S_def)
  from a b c show ?thesis by simp
qed

section \<open>cancelOrder\<close>

text \<open>
  C7. \<open>cancelOrder\<close> is one query. A row becomes CANCELLED exactly when the query
  does not raise and the row has the given identifier, belongs to the given user and
  is PENDING; every other row, the trades and the portfolio stay as they were. The
  answer is \<open>true\<close> exactly when some row went from PENDING to CANCELLED.
\<close>

theorem cancelOrder_compare_and_swap:
  assumes run: "cancelOrder env orderId uid s = (s', res)"
  shows "length (orders s') = length (orders s) \<and>
         (\<forall>i<length (orders s).
            orders s' ! i =
              (if poolQuery env s = None \<and> order_id (orders s ! i) = orderId \<and>
                  userId (orders s ! i) = uid \<and> status (orders s ! i) = PENDING
               then (orders s ! i)\<lparr>status := CANCELLED, updatedAt := now env s\<rparr>
               else orders s ! i)) \<and>
         res = Inr (\<exists>i<length (orders s).
                      status (orders s ! i) = PENDING \<and> status (orders s' ! i) = CANCELLED) \<and>
         trades s' = trades s \<and> portfolio s' = portfolio s \<and>
         new_calls s s' = [PoolQuery]"
proof (cases "poolQuery env s")
  case None
  with run have s': "s' = s\<lparr>orders := sql_cancel orderId uid (now env s) (orders s),
                   calls := calls s @ [PoolQuery]\<rparr>"
    and res: "res = Inr (0 < length (filter (cancel_matches orderId uid) (orders s)))"
    by (simp_all add: cancelOrder_run)
  have rows: "\<forall>i<length (orders s).
            orders s' ! i =
              (if poolQuery env s = None \<and> order_id (orders s ! i) = orderId \<and>
                  userId (orders s ! i) = uid \<and> status (orders s ! i) = PENDING
               then (orders s ! i)\<lparr>status := CANCELLED, updatedAt := now env s\<rparr>
               else orders s ! i)"
    by (simp add: s' None sql_cancel_nth cancel_matches_def)
  have "(\<exists>i<length (orders s). cancel_matches orderId uid (orders s ! i)) \<longleftrightarrow>
        (\<exists>i<length (orders s). status (orders s ! i) = PENDING \<and> status (orders s' ! i) = CANCELLED)"
    using rows None by (auto simp: cancel_matches_def split: if_splits)
  then have "res = Inr (\<exists>i<length (orders s).
                      status (orders s ! i) = PENDING \<and> status (orders s' ! i) = CANCELLED)"
    unfolding res row_count_positive by simp
  with rows show ?thesis
    by (simp add: s' sql_cancel_length new_calls_def)
next
  case (Some e)
  with run have s': "s' = s\<lparr>calls := calls s @ [PoolQuery]\<rparr>" and res: "res = Inr False"
    by (simp_all add: cancelOrder_run)
  show ?thesis
    by (simp add: s' res Some new_calls_def)
qed

text \<open>The owner cancels the pending order \<open>o1\<close>.\<close>

theorem cancelOrder_compare_and_swap_witness:
  "cancelOrder venue ''o1'' ''u1'' store_A =
     (store_A\<lparr>orders := [order_A\<lparr>status := CANCELLED, updatedAt := 0\<rparr>],
        calls := [PoolQuery]\<rparr>, Inr True) \<and>
   (\<exists>i<length (orders store_A). status (orders store_A ! i) = PENDING \<and>
      status ([order_A\<lparr>status := CANCELLED, updatedAt := 0\<rparr>] ! i) = CANCELLED)"
proof -
  have run: "cancelOrder venue ''o1'' ''u1'' store_A =
     (store_A\<lparr>orders := [order_A\<lparr>status := CANCELLED, updatedAt := 0\<rparr>],
        calls := [PoolQuery]\<rparr>, Inr True)"
    by (simp add: cancelOrder_run venue_def store_A_def order_A_def sql_cancel_def
        cancel_matches_def)
  from cancelOrder_compare_and_swap [OF run] run show ?thesis
    by (simp add: store_A_def venue_def order_A_def)
qed

section \<open>processPendingOrders\<close>

text \<open>
  C2 does not hold of the code. The pending orders of \<open>store_LT\<close> are fetched oldest
  first: the take-profit order on JUP, then the limit order on BONK. The price feed
  raises for JUP; \<open>executeTakeProfitOrder\<close> has no \<open>try\<close> block, the exception ends
  the loop, and the limit order is never evaluated: the pass makes the query and one
  price request. Were the first order a limit order, whose executor catches the
  exception, the pass would go on to price BONK.
\<close>

theorem take_profit_raise_aborts_batch:
  "snd (getPendingOrders venue_feed_down store_LT) = Inr [order_T, order_L] \<and>
   processPendingOrders venue_feed_down store_LT =
     (store_LT\<lparr>calls := [PoolQuery, GetTokenPrice ''JUP'' ''USDC'']\<rparr>, Inr ()) \<and>
   take 3 (calls (fst (processPendingOrders venue_feed_down
       (store_LT\<lparr>orders := [order_L, order_T\<lparr>order_type := LIMIT\<rparr>]\<rparr>)))) =
     [PoolQuery, GetTokenPrice ''JUP'' ''USDC'', GetTokenPrice ''BONK'' ''USDC'']"
proof -
  have a: "snd (getPendingOrders venue_feed_down store_LT) = Inr [order_T, order_L]"
    by (simp add: getPendingOrders_def pool_query_def venue_feed_down_def venue_def store_LT_def
        order_L_def order_T_def)
  have b: "processPendingOrders venue_feed_down store_LT =
     (store_LT\<lparr>calls := [PoolQuery, GetTokenPrice ''JUP'' ''USDC'']\<rparr>, Inr ())"
    unfolding processPendingOrders_def getPendingOrders_def
    by (simp add: try_catch_def bind_io_def pool_query_def return_io_def called_def dispatch_def
        executeTakeProfitOrder_def call_getTokenPrice_def
        venue_feed_down_def venue_def store_LT_def order_L_def order_T_def)
  have c: "take 3 (calls (fst (processPendingOrders venue_feed_down
       (store_LT\<lparr>orders := [order_L, order_T\<lparr>order_type := LIMIT\<rparr>]\<rparr>)))) =
     [PoolQuery, GetTokenPrice ''JUP'' ''USDC'', GetTokenPrice ''BONK'' ''USDC'']"
    unfolding processPendingOrders_def getPendingOrders_def
    by (simp add: io_defs dispatch_def executeMarketOrder_def executeMarketOrder_try_def executeLimitOrder_def shouldExecuteLimitOrder_def js_ge_def
        checkSlippage_def js_or_def quote_100_def parse_amount_def exact_round_def fixed_digits_def Let_def
        venue_feed_down_def venue_def store_LT_def order_L_def order_T_def)
  from a b c show ?thesis by simp
qed

section \<open>Order status\<close>

text \<open>
  C3 does not hold of the code. The write of \<open>updateOrderStatus\<close> is keyed by the
  identifier alone. The owner cancels the pending order \<open>o1\<close>, which is then
  CANCELLED; a market execution of the order as it was read before turns the row
  FILLED and inserts a trade.
\<close>

theorem cancelled_order_filled:
  "snd (cancelOrder venue ''o1'' ''u1'' store_A) = Inr True \<and>
   map status (orders (fst (cancelOrder venue ''o1'' ''u1'' store_A))) = [CANCELLED] \<and>
   map status (orders (fst (executeMarketOrder venue order_A
      (fst (cancelOrder venue ''o1'' ''u1'' store_A))))) = [FILLED] \<and>
   map trade_orderId (trades (fst (executeMarketOrder venue order_A
      (fst (cancelOrder venue ''o1'' ''u1'' store_A))))) = [''o1'']"
proof -
  have run: "cancelOrder venue ''o1'' ''u1'' store_A =
     (store_A\<lparr>orders := [order_A\<lparr>status := CANCELLED, updatedAt := 0\<rparr>],
        calls := [PoolQuery]\<rparr>, Inr True)"
    by (simp add: cancelOrder_run venue_def store_A_def order_A_def sql_cancel_def
        cancel_matches_def)
  show ?thesis
    unfolding run executeMarketOrder_def executeMarketOrder_try_def io_defs
    by (simp add: venue_def store_A_def order_A_def sql_update_status_def checkSlippage_def
        js_or_def quote_100_def parse_amount_def exact_round_def Let_def)
qed

end
